theory Spec2Isabelle
  imports Complex_Main "HOL-Library.AList" "HOL-Library.Char_ord" "HOL-Library.List_Lexorder"
begin

section \<open>Data model of \<^verbatim>\<open>price_monitor.py\<close>\<close>

text \<open>
  Prices are Python floats; they are modelled as reals, so IEEE rounding, infinities and
  NaN are abstracted away.  Every concrete input used below was chosen so that the float
  computation and the real computation take the same branches.  A \<^verbatim>\<open>datetime\<close> is the
  number of microseconds since some epoch, a \<^verbatim>\<open>timedelta\<close> a number of microseconds;
  both are unbounded integers here.  Coin identifiers are Python ints.
\<close>

type_synonym datetime = int
type_synonym timedelta = int

datatype py_error = ZeroDivisionError | OverflowError | KeyError | ValueError | TypeError

text \<open>
  The value stored under \<^verbatim>\<open>"minutes"\<close> in a threshold: an int, or \<^verbatim>\<open>float('inf')\<close>.
\<close>

datatype minutes_value = Minutes nat | FloatInf

record threshold =
  percent :: real
  minutes :: minutes_value

definition SHORT_TERM_THRESHOLDS :: "threshold list" where
  "SHORT_TERM_THRESHOLDS =
    [\<lparr>percent = 0.2, minutes = Minutes 2\<rparr>,
     \<lparr>percent = 0.5, minutes = Minutes 5\<rparr>,
     \<lparr>percent = 1.0, minutes = Minutes 10\<rparr>,
     \<lparr>percent = 2.0, minutes = Minutes 30\<rparr>]"

definition LONG_TERM_THRESHOLDS :: "threshold list" where
  "LONG_TERM_THRESHOLDS =
    [\<lparr>percent = 3.0, minutes = Minutes 60\<rparr>,
     \<lparr>percent = 5.0, minutes = Minutes 360\<rparr>,
     \<lparr>percent = 8.0, minutes = Minutes 720\<rparr>,
     \<lparr>percent = 12.0, minutes = Minutes 1440\<rparr>,
     \<lparr>percent = 15.0, minutes = FloatInf\<rparr>]"

text \<open>
  \<^verbatim>\<open>timedelta(minutes=m)\<close>.  The standard library converts its argument to an integer
  number of microseconds and raises \<^verbatim>\<open>OverflowError\<close> on a float infinity.
\<close>

definition timedelta :: "minutes_value \<Rightarrow> py_error + timedelta" where
  "timedelta m = (case m of
      Minutes n \<Rightarrow> Inr (int n * 60000000)
    | FloatInf \<Rightarrow> Inl OverflowError)"

text \<open>
  One channel of a watchlist entry.  In memory the timestamp is a \<^verbatim>\<open>datetime\<close>, in
  \<^verbatim>\<open>watchlist.json\<close> it is the text \<^verbatim>\<open>isoformat()\<close> wrote, hence the type parameter.
\<close>

record 't channel =
  last_price :: "real option"
  last_notification_time :: 't

text \<open>A value of \<^verbatim>\<open>self.tokens\<close>, and a watchlist entry, which carries the same two keys.\<close>

record token =
  name :: string
  symbol :: string

record 't coin_info = token +
  short_term :: "'t channel"
  long_term :: "'t channel"

text \<open>
  The watchlist is a Python dict from coin id to entry: an association list, in
  insertion order, read with \<^const>\<open>map_of\<close>; an entry is mutated in place with
  \<^const>\<open>AList.map_entry\<close> and assigned with \<^const>\<open>AList.update\<close>.
\<close>

type_synonym watchlist = "(int \<times> datetime coin_info) list"

datatype notification_type = ShortTerm | LongTerm | Absolute

text \<open>
  A notification dict.  The key \<^verbatim>\<open>"time_elapsed"\<close> is absent from absolute notifications.
\<close>

record notification =
  coin_name :: string
  coin_symbol :: string
  current_price :: real
  price_change :: real
  time_elapsed :: "timedelta option"
  type' :: notification_type
  coin_id :: int

text \<open>
  The local variables of \<^verbatim>\<open>check_price_movements\<close> that the per-coin loop mutates.  The
  lists \<^verbatim>\<open>short_term_matches\<close>, \<^verbatim>\<open>long_term_matches\<close>, \<^verbatim>\<open>absolute_matches\<close> and
  \<^verbatim>\<open>significant_changes\<close> only feed the log and are left out.
\<close>

record tick_state =
  watchlist :: watchlist
  notifications :: "notification list"
  absolute_notifications :: "notification list"
  watchlist_updated :: bool

section \<open>The evaluation tick\<close>

text \<open>
  \<^verbatim>\<open>((current_price - last_price) / last_price) * 100\<close>: dividing by a zero float (or int)
  raises \<^verbatim>\<open>ZeroDivisionError\<close>.
\<close>

definition change_percent :: "real \<Rightarrow> real \<Rightarrow> py_error + real" where
  "change_percent current baseline =
    (if baseline = 0 then Inl ZeroDivisionError
     else Inr (((current - baseline) / baseline) * 100))"

text \<open>
  The \<^verbatim>\<open>for threshold in ...: if ...: ...; break\<close> loops of lines 398-418 and 420-446,
  up to the rule at which they stop.  The condition is
  \<^verbatim>\<open>abs(change) >= threshold["percent"] and elapsed <= timedelta(minutes=threshold["minutes"])\<close>;
  \<^verbatim>\<open>and\<close> evaluates its right operand only when the left one holds, so the
  \<^verbatim>\<open>timedelta\<close> is built, and can raise, only for a rule whose magnitude test passes.
\<close>

fun threshold_scan :: "real \<Rightarrow> timedelta \<Rightarrow> threshold list \<Rightarrow> py_error + threshold option" where
  "threshold_scan change elapsed [] = Inr None"
| "threshold_scan change elapsed (t # ts) =
    (if \<bar>change\<bar> \<ge> percent t then
       (case timedelta (minutes t) of
          Inl e \<Rightarrow> Inl e
        | Inr window \<Rightarrow>
            if elapsed \<le> window then Inr (Some t) else threshold_scan change elapsed ts)
     else threshold_scan change elapsed ts)"

text \<open>Lines 359-367: the entry of a coin whose price data is blank.\<close>

definition initialize_coin :: "real \<Rightarrow> datetime \<Rightarrow> int \<Rightarrow> tick_state \<Rightarrow> tick_state" where
  "initialize_coin price current_time cid st =
    st\<lparr>watchlist := AList.map_entry cid
          (\<lambda>i. i\<lparr>short_term := \<lparr>last_price = Some price, last_notification_time = current_time\<rparr>,
                  long_term := \<lparr>last_price = Some price, last_notification_time = current_time\<rparr>\<rparr>)
          (watchlist st),
       watchlist_updated := True\<rparr>"

text \<open>Lines 383-395: the absolute candidate is put aside, not emitted.\<close>

definition absolute_check :: "real \<Rightarrow> real \<Rightarrow> int \<Rightarrow> datetime coin_info \<Rightarrow> tick_state \<Rightarrow> tick_state" where
  "absolute_check price short_term_change_percent cid info st =
    (if \<bar>short_term_change_percent\<bar> \<ge> 2.0 then
       st\<lparr>absolute_notifications := absolute_notifications st @
            [\<lparr>coin_name = name info, coin_symbol = symbol info, current_price = price,
              price_change = short_term_change_percent, time_elapsed = None,
              type' = Absolute, coin_id = cid\<rparr>]\<rparr>
     else st)"

text \<open>
  Lines 397-418.  The stored timestamps are \<^verbatim>\<open>datetime\<close> objects after
  \<^verbatim>\<open>load_watchlist\<close>, so the \<^verbatim>\<open>isinstance(..., str)\<close> branch is not taken.
\<close>

definition short_term_check ::
    "real \<Rightarrow> datetime \<Rightarrow> real \<Rightarrow> int \<Rightarrow> datetime coin_info \<Rightarrow> tick_state \<Rightarrow> py_error + tick_state" where
  "short_term_check price current_time short_term_change_percent cid info st =
    (let short_term_time_elapsed = current_time - last_notification_time (short_term info) in
     case threshold_scan short_term_change_percent short_term_time_elapsed SHORT_TERM_THRESHOLDS of
       Inl e \<Rightarrow> Inl e
     | Inr None \<Rightarrow> Inr st
     | Inr (Some t) \<Rightarrow>
         Inr (st\<lparr>notifications := notifications st @
            [\<lparr>coin_name = name info, coin_symbol = symbol info, current_price = price,
              price_change = short_term_change_percent,
              time_elapsed = Some short_term_time_elapsed,
              type' = ShortTerm, coin_id = cid\<rparr>]\<rparr>))"

text \<open>Lines 420-446: a long-term match also resets the long-term baseline at once.\<close>

definition long_term_check ::
    "real \<Rightarrow> datetime \<Rightarrow> real \<Rightarrow> int \<Rightarrow> datetime coin_info \<Rightarrow> tick_state \<Rightarrow> py_error + tick_state" where
  "long_term_check price current_time long_term_change_percent cid info st =
    (let long_term_time_elapsed = current_time - last_notification_time (long_term info) in
     case threshold_scan long_term_change_percent long_term_time_elapsed LONG_TERM_THRESHOLDS of
       Inl e \<Rightarrow> Inl e
     | Inr None \<Rightarrow> Inr st
     | Inr (Some t) \<Rightarrow>
         Inr (st\<lparr>notifications := notifications st @
            [\<lparr>coin_name = name info, coin_symbol = symbol info, current_price = price,
              price_change = long_term_change_percent,
              time_elapsed = Some long_term_time_elapsed,
              type' = LongTerm, coin_id = cid\<rparr>],
            watchlist := AList.map_entry cid
              (\<lambda>i. i\<lparr>long_term := \<lparr>last_price = Some price, last_notification_time = current_time\<rparr>\<rparr>)
              (watchlist st),
            watchlist_updated := True\<rparr>))"

text \<open>
  The body of the per-coin loop, lines 347-449.  An exception raised inside the
  \<^verbatim>\<open>try\<close> is logged and the loop goes on with the next coin; what the body had
  already appended or written stays.
\<close>

definition process_coin :: "(int \<rightharpoonup> real) \<Rightarrow> datetime \<Rightarrow> tick_state \<Rightarrow> int \<Rightarrow> tick_state" where
  "process_coin current_prices current_time st cid =
    (case map_of (watchlist st) cid of
       None \<Rightarrow> st
     | Some info \<Rightarrow>
        (case current_prices cid of
           None \<Rightarrow> st
         | Some price \<Rightarrow>
            (case (last_price (short_term info), last_price (long_term info)) of
               (Some short_term_price, Some long_term_price) \<Rightarrow>
                 (case change_percent price short_term_price of
                    Inl e \<Rightarrow> st
                  | Inr short_term_change_percent \<Rightarrow>
                     (case change_percent price long_term_price of
                        Inl e \<Rightarrow> st
                      | Inr long_term_change_percent \<Rightarrow>
                         (let st1 = absolute_check price short_term_change_percent cid info st in
                          case short_term_check price current_time short_term_change_percent cid info st1 of
                            Inl e \<Rightarrow> st1
                          | Inr st2 \<Rightarrow>
                             (case long_term_check price current_time long_term_change_percent cid info st2 of
                                Inl e \<Rightarrow> st2
                              | Inr st3 \<Rightarrow> st3))))
             | _ \<Rightarrow> initialize_coin price current_time cid st)))"

text \<open>
  Lines 459-467: the second pass over the absolute candidates.  A candidate is dropped
  when \<^verbatim>\<open>notifications\<close> holds a short-term notification with the same
  \<^verbatim>\<open>coin_symbol\<close>; otherwise it is appended to \<^verbatim>\<open>notifications\<close>.
\<close>

fun resolve_overlaps :: "notification list \<Rightarrow> notification list \<Rightarrow> notification list" where
  "resolve_overlaps [] ns = ns"
| "resolve_overlaps (abs_notif # rest) ns =
    (if list_ex (\<lambda>notif. coin_symbol notif = coin_symbol abs_notif \<and> type' notif = ShortTerm) ns
     then resolve_overlaps rest ns
     else resolve_overlaps rest (ns @ [abs_notif]))"

text \<open>
  Lines 490-499: every short-term or absolute notification resets the short-term
  baseline of its \<^verbatim>\<open>coin_id\<close>.
\<close>

fun update_prices :: "datetime \<Rightarrow> notification list \<Rightarrow> watchlist \<times> bool \<Rightarrow> watchlist \<times> bool" where
  "update_prices current_time [] (wl, updated) = (wl, updated)"
| "update_prices current_time (n # ns) (wl, updated) =
    (if type' n = ShortTerm \<or> type' n = Absolute then
       update_prices current_time ns
         (AList.map_entry (coin_id n)
            (\<lambda>i. i\<lparr>short_term := \<lparr>last_price = Some (current_price n),
                                   last_notification_time = current_time\<rparr>\<rparr>) wl,
          True)
     else update_prices current_time ns (wl, updated))"

text \<open>Lines 326-449: the fresh lists, and the loop over the keys of the watchlist.\<close>

definition run_loop :: "(int \<rightharpoonup> real) \<Rightarrow> datetime \<Rightarrow> watchlist \<Rightarrow> tick_state" where
  "run_loop current_prices current_time wl =
    foldl (process_coin current_prices current_time)
      \<lparr>watchlist = wl, notifications = [], absolute_notifications = [],
       watchlist_updated = False\<rparr>
      (map fst wl)"

text \<open>
  Lines 326-504 without the file and the network: from the loaded watchlist, the prices
  the price source returned and the time of the tick to the returned notifications, the
  watchlist as it stands at the end and the flag that decides whether it is saved.
\<close>

definition evaluate ::
    "(int \<rightharpoonup> real) \<Rightarrow> datetime \<Rightarrow> watchlist \<Rightarrow> notification list \<times> watchlist \<times> bool" where
  "evaluate current_prices current_time wl =
    (let st = run_loop current_prices current_time wl;
         ns = resolve_overlaps (absolute_notifications st) (notifications st);
         (wl', updated) = update_prices current_time ns (watchlist st, watchlist_updated st)
     in (ns, wl', updated))"

section \<open>The watchlist file\<close>

text \<open>
  What \<^verbatim>\<open>os.path.exists\<close>, \<^verbatim>\<open>os.path.getsize\<close> and \<^verbatim>\<open>json.load\<close> tell about a file: it is
  missing, it has size 0, its text is not JSON, or it holds a document.  Failures of the
  file system itself (permissions, a full disk, the lock) are not modelled.
\<close>

datatype 'd json_file = Missing | Empty | NotJson | Document 'd

text \<open>
  \<^verbatim>\<open>watchlist.json\<close> holds a JSON object keyed by the decimal text of the coin id.  A value
  is either an object with the four required keys and two complete channels, whose
  prices are numbers or \<^verbatim>\<open>null\<close> and whose timestamps are strings, or it is anything
  else: \<^verbatim>\<open>load_watchlist\<close> skips such a value, through its required-fields test or
  through the \<^verbatim>\<open>KeyError\<close> or \<^verbatim>\<open>TypeError\<close> its inner \<^verbatim>\<open>try\<close> catches.  A document whose
  top level is not an object, and prices of other JSON types, are outside this model.
\<close>

datatype stored_entry = Malformed | Entry "string coin_info"

type_synonym watchlist_document = "(string \<times> stored_entry) list"

record world =
  watchlist_json :: "watchlist_document json_file"
  tokens_json :: "(string \<times> token) list json_file"
  tokens :: "(int \<times> token) list"

text \<open>
  The answer of the \<^verbatim>\<open>/cryptocurrency/info\<close> request, by the cases \<^verbatim>\<open>add_coin\<close> tells
  apart: the request or the decoding of its answer raises; the status carries an error
  code; the coin is not in the data; the data of the coin.
\<close>

datatype api_response = RequestFailed | ErrorStatus | NotFound | CoinData token

text \<open>
  What the program takes from outside: the built-in \<^verbatim>\<open>int\<close> on a string (\<open>None\<close> when
  it raises \<^verbatim>\<open>ValueError\<close>), \<^verbatim>\<open>datetime.fromisoformat\<close> (\<open>None\<close> when it raises) and
  \<^verbatim>\<open>isoformat\<close>, the clock, the prices \<^verbatim>\<open>get_coin_price\<close> returns for a list of ids (the
  empty dict after three failed attempts), and the coin information service.
\<close>

record environment =
  int_of_str :: "string \<Rightarrow> int option"
  fromisoformat :: "string \<Rightarrow> datetime option"
  isoformat :: "datetime \<Rightarrow> string"
  datetime_now :: datetime
  get_coin_price :: "int list \<Rightarrow> (int \<rightharpoonup> real)"
  cryptocurrency_info :: "int \<Rightarrow> api_response"

text \<open>\<^verbatim>\<open>str(n)\<close> on an int: its decimal digits, with a minus sign when negative.\<close>

definition digit_char :: "nat \<Rightarrow> char" where
  "digit_char d = char_of (48 + d)"

fun str_nat :: "nat \<Rightarrow> string" where
  "str_nat n = (if n < 10 then [digit_char n] else str_nat (n div 10) @ [digit_char (n mod 10)])"

declare str_nat.simps [simp del]

definition py_str :: "int \<Rightarrow> string" where
  "py_str i = (if i < 0 then CHR ''-'' # str_nat (nat (- i)) else str_nat (nat i))"

text \<open>\<^verbatim>\<open>json.dump(..., sort_keys=True)\<close> writes the keys of the object in ascending order.\<close>

definition json_sort_keys :: "(string \<times> 'v) list \<Rightarrow> (string \<times> 'v) list" where
  "json_sort_keys data = sort_key fst data"

text \<open>Lines 67-74.\<close>

definition save_tokens :: "world \<Rightarrow> world" where
  "save_tokens w =
    w\<lparr>tokens_json := Document
        (foldl (\<lambda>data (k, v). AList.update (py_str k) v data) [] (tokens w))\<rparr>"

text \<open>
  Lines 89-146 of \<^verbatim>\<open>add_coin\<close>: the coin is not in the document yet.  Every \<^verbatim>\<open>return False\<close>
  here leaves before anything was written.
\<close>

definition add_new_coin :: "environment \<Rightarrow> int \<Rightarrow> watchlist_document \<Rightarrow> world \<Rightarrow> bool \<times> world" where
  "add_new_coin env cid watchlist_data w =
    (case cryptocurrency_info env cid of
       RequestFailed \<Rightarrow> (False, w)
     | ErrorStatus \<Rightarrow> (False, w)
     | NotFound \<Rightarrow> (False, w)
     | CoinData coin_data \<Rightarrow>
        (let w1 = save_tokens
                    (w\<lparr>tokens := AList.update cid
                         \<lparr>name = name coin_data, symbol = symbol coin_data\<rparr> (tokens w)\<rparr>);
             current_time = isoformat env (datetime_now env);
             new_entry =
               \<lparr>name = name coin_data, symbol = symbol coin_data,
                short_term = \<lparr>last_price = None, last_notification_time = current_time\<rparr>,
                long_term = \<lparr>last_price = None, last_notification_time = current_time\<rparr>\<rparr>
         in (True,
             w1\<lparr>watchlist_json := Document
                  (json_sort_keys (AList.update (py_str cid) (Entry new_entry) watchlist_data))\<rparr>)))"

text \<open>
  Lines 76-150.  The document is read, and searched for \<^verbatim>\<open>str(coin_id)\<close>, only when the
  file exists and is not empty; a text that is not JSON makes \<^verbatim>\<open>json.load\<close> raise, and
  the handler at the end returns \<^verbatim>\<open>False\<close>.
\<close>

definition add_coin :: "environment \<Rightarrow> int \<Rightarrow> world \<Rightarrow> bool \<times> world" where
  "add_coin env cid w =
    (case watchlist_json w of
       Missing \<Rightarrow> add_new_coin env cid [] w
     | Empty \<Rightarrow> add_new_coin env cid [] w
     | NotJson \<Rightarrow> (False, w)
     | Document watchlist_data \<Rightarrow>
         if py_str cid \<in> set (map fst watchlist_data) then (True, w)
         else add_new_coin env cid watchlist_data w)"

text \<open>
  The loop of lines 201-229 over \<^verbatim>\<open>data.items()\<close>: a key that is not an int, an entry
  without the required fields and a timestamp that does not parse each skip the coin.
\<close>

fun load_entries :: "environment \<Rightarrow> watchlist_document \<Rightarrow> watchlist \<Rightarrow> watchlist" where
  "load_entries env [] wl = wl"
| "load_entries env ((coin_id_str, info) # rest) wl =
    (case int_of_str env coin_id_str of
       None \<Rightarrow> load_entries env rest wl
     | Some cid \<Rightarrow>
        (case info of
           Malformed \<Rightarrow> load_entries env rest wl
         | Entry e \<Rightarrow>
            (case fromisoformat env (last_notification_time (short_term e)) of
               None \<Rightarrow> load_entries env rest wl
             | Some short_term_time \<Rightarrow>
                (case fromisoformat env (last_notification_time (long_term e)) of
                   None \<Rightarrow> load_entries env rest wl
                 | Some long_term_time \<Rightarrow>
                     load_entries env rest
                       (AList.update cid
                          \<lparr>name = name e, symbol = symbol e,
                           short_term = \<lparr>last_price = last_price (short_term e),
                                         last_notification_time = short_term_time\<rparr>,
                           long_term = \<lparr>last_price = last_price (long_term e),
                                        last_notification_time = long_term_time\<rparr>\<rparr>
                          wl)))))"

text \<open>Lines 191-244.\<close>

definition load_watchlist :: "environment \<Rightarrow> watchlist_document json_file \<Rightarrow> watchlist" where
  "load_watchlist env f =
    (case f of
       Missing \<Rightarrow> []
     | Empty \<Rightarrow> []
     | NotJson \<Rightarrow> []
     | Document data \<Rightarrow> load_entries env data [])"

text \<open>Lines 246-270.\<close>

definition save_watchlist :: "environment \<Rightarrow> watchlist \<Rightarrow> world \<Rightarrow> world" where
  "save_watchlist env wl w =
    w\<lparr>watchlist_json := Document (json_sort_keys
        (foldl (\<lambda>data (cid, info). AList.update (py_str cid)
            (Entry \<lparr>name = name info, symbol = symbol info,
                    short_term = \<lparr>last_price = last_price (short_term info),
                      last_notification_time =
                        isoformat env (last_notification_time (short_term info))\<rparr>,
                    long_term = \<lparr>last_price = last_price (long_term info),
                      last_notification_time =
                        isoformat env (last_notification_time (long_term info))\<rparr>\<rparr>) data)
          [] wl))\<rparr>"

text \<open>
  Lines 321-504 as a whole: the returned notifications and the files afterwards.
  \<^verbatim>\<open>get_coin_price\<close> catches every exception itself, so the handler of lines 341-343
  is never entered.
\<close>

definition check_price_movements :: "environment \<Rightarrow> world \<Rightarrow> notification list \<times> world" where
  "check_price_movements env w =
    (let wl = load_watchlist env (watchlist_json w) in
     if wl = [] then ([], w)
     else
       (let current_prices = get_coin_price env (map fst wl);
            (ns, wl', updated) = evaluate current_prices (datetime_now env) wl
        in (ns, if updated then save_watchlist env wl' w else w)))"

section \<open>Notions used in the statements\<close>

text \<open>
  The loop body run on one entry alone: what a coin contributes to the tick, as a
  function of its own entry.
\<close>

definition coin_step :: "(int \<rightharpoonup> real) \<Rightarrow> datetime \<Rightarrow> int \<Rightarrow> datetime coin_info \<Rightarrow> tick_state" where
  "coin_step current_prices current_time cid info =
    process_coin current_prices current_time
      \<lparr>watchlist = [(cid, info)], notifications = [], absolute_notifications = [],
       watchlist_updated = False\<rparr> cid"

text \<open>
  The matching condition in the words of the specification: the magnitude reaches the
  percent of the rule and the elapsed time is within its window, an infinite window
  holding every elapsed time.
\<close>

definition spec_rule_matches :: "real \<Rightarrow> timedelta \<Rightarrow> threshold \<Rightarrow> bool" where
  "spec_rule_matches change elapsed t =
    (\<bar>change\<bar> \<ge> percent t \<and>
     (case minutes t of Minutes n \<Rightarrow> elapsed \<le> int n * 60000000 | FloatInf \<Rightarrow> True))"

section \<open>Evaluating the definitions\<close>

lemmas stage_defs =
  initialize_coin_def absolute_check_def short_term_check_def long_term_check_def

lemmas tick_defs =
  evaluate_def run_loop_def process_coin_def stage_defs change_percent_def timedelta_def
  SHORT_TERM_THRESHOLDS_def LONG_TERM_THRESHOLDS_def Let_def

lemma py_str_1: "py_str 1 = ''1''"
  by code_simp

lemma py_str_2: "py_str 2 = ''2''"
  by code_simp

section \<open>What one coin contributes to the tick\<close>

text \<open>
  The loop body reads and writes the entry of its own coin only, and appends to the two
  lists what the same body appends when run on that entry alone.
\<close>

lemma map_fst_map_entry: "map fst (AList.map_entry k f xs) = map fst xs"
  by (induction xs) auto

lemma process_coin_keys:
  "map fst (watchlist (process_coin P now st c)) = map fst (watchlist st)"
  by (auto simp: process_coin_def stage_defs Let_def map_fst_map_entry
           split: option.splits sum.splits)

lemma process_coin_other:
  "k \<noteq> c \<Longrightarrow> map_of (watchlist (process_coin P now st c)) k = map_of (watchlist st) k"
  by (auto simp: process_coin_def stage_defs Let_def map_of_map_entry
           split: option.splits sum.splits)

lemma process_coin_frame:
  assumes "map_of (watchlist st) c = Some i"
  shows "notifications (process_coin P now st c) =
           notifications st @ notifications (coin_step P now c i) \<and>
         absolute_notifications (process_coin P now st c) =
           absolute_notifications st @ absolute_notifications (coin_step P now c i) \<and>
         watchlist_updated (process_coin P now st c) =
           (watchlist_updated st \<or> watchlist_updated (coin_step P now c i)) \<and>
         map_of (watchlist (process_coin P now st c)) c =
           map_of (watchlist (coin_step P now c i)) c"
  using assms
  by (auto simp: coin_step_def process_coin_def stage_defs Let_def map_of_map_entry
           split: option.splits sum.splits)

text \<open>The cases of the loop body.\<close>

lemma coin_step_no_price:
  "P c = None \<Longrightarrow>
   coin_step P now c i = \<lparr>watchlist = [(c, i)], notifications = [], absolute_notifications = [],
       watchlist_updated = False\<rparr>"
  by (simp add: coin_step_def process_coin_def)

lemma coin_step_initialize:
  "P c = Some p \<Longrightarrow> last_price (short_term i) = None \<or> last_price (long_term i) = None \<Longrightarrow>
   coin_step P now c i =
     \<lparr>watchlist = [(c, i\<lparr>short_term := \<lparr>last_price = Some p, last_notification_time = now\<rparr>,
                          long_term := \<lparr>last_price = Some p, last_notification_time = now\<rparr>\<rparr>)],
      notifications = [], absolute_notifications = [], watchlist_updated = True\<rparr>"
  by (auto simp: coin_step_def process_coin_def initialize_coin_def split: option.splits)

lemma coin_step_zero_baseline:
  "last_price (short_term i) = Some sp \<Longrightarrow> last_price (long_term i) = Some lp \<Longrightarrow>
   sp = 0 \<or> lp = 0 \<Longrightarrow>
   coin_step P now c i = \<lparr>watchlist = [(c, i)], notifications = [], absolute_notifications = [],
       watchlist_updated = False\<rparr>"
  by (auto simp: coin_step_def process_coin_def change_percent_def split: option.splits)

lemma coin_step_notifications:
  "n \<in> set (notifications (coin_step P now c i)) \<Longrightarrow>
   coin_id n = c \<and> coin_symbol n = symbol i \<and> P c = Some (current_price n) \<and> type' n \<noteq> Absolute"
  by (auto simp: coin_step_def process_coin_def stage_defs Let_def
           split: option.splits sum.splits if_splits)

lemma coin_step_absolute:
  "n \<in> set (absolute_notifications (coin_step P now c i)) \<Longrightarrow>
   coin_id n = c \<and> coin_symbol n = symbol i \<and> P c = Some (current_price n) \<and> type' n = Absolute"
  by (auto simp: coin_step_def process_coin_def stage_defs Let_def
           split: option.splits sum.splits if_splits)

lemma coin_step_entry:
  "\<exists>i'. map_of (watchlist (coin_step P now c i)) c = Some i' \<and>
     name i' = name i \<and> symbol i' = symbol i \<and>
     (\<forall>n \<in> set (notifications (coin_step P now c i)). type' n = LongTerm \<longrightarrow>
        long_term i' = \<lparr>last_price = Some (current_price n), last_notification_time = now\<rparr>)"
  by (auto simp: coin_step_def process_coin_def stage_defs Let_def
           split: option.splits sum.splits if_splits)

section \<open>The loop, the overlap resolution and the baseline reset\<close>

text \<open>
  With distinct keys, as in a dict, the loop gathers what each coin contributes.
\<close>

lemma foldl_process_coin:
  assumes "distinct (map fst rest)"
    and "\<forall>(k, i) \<in> set rest. map_of (watchlist st) k = Some i"
  shows "notifications (foldl (process_coin P now) st (map fst rest)) =
           notifications st @ concat (map (\<lambda>(k, i). notifications (coin_step P now k i)) rest) \<and>
         absolute_notifications (foldl (process_coin P now) st (map fst rest)) =
           absolute_notifications st @
             concat (map (\<lambda>(k, i). absolute_notifications (coin_step P now k i)) rest) \<and>
         watchlist_updated (foldl (process_coin P now) st (map fst rest)) =
           (watchlist_updated st \<or> list_ex (\<lambda>(k, i). watchlist_updated (coin_step P now k i)) rest) \<and>
         map fst (watchlist (foldl (process_coin P now) st (map fst rest))) = map fst (watchlist st) \<and>
         (\<forall>k. map_of (watchlist (foldl (process_coin P now) st (map fst rest))) k =
            (case map_of rest k of
               None \<Rightarrow> map_of (watchlist st) k
             | Some i \<Rightarrow> map_of (watchlist (coin_step P now k i)) k))"
  using assms
proof (induction rest arbitrary: st)
  case Nil
  then show ?case by simp
next
  case (Cons a rest)
  obtain c i where a: "a = (c, i)" by (cases a)
  let ?st1 = "process_coin P now st c"
  from Cons.prems a have here: "map_of (watchlist st) c = Some i" by simp
  from Cons.prems a have notin: "c \<notin> fst ` set rest" and d: "distinct (map fst rest)" by auto
  have later: "\<forall>(k, j) \<in> set rest. map_of (watchlist ?st1) k = Some j"
  proof clarify
    fix k j assume kj: "(k, j) \<in> set rest"
    with notin have "k \<noteq> c" by force
    moreover from Cons.prems kj have "map_of (watchlist st) k = Some j" by auto
    ultimately show "map_of (watchlist ?st1) k = Some j" by (simp add: process_coin_other)
  qed
  note IH = Cons.IH [OF d later]
  note F = process_coin_frame [OF here, of P now]
  from notin have none: "map_of rest c = None" by (simp add: map_of_eq_None_iff)
  have lookup: "map_of (watchlist (foldl (process_coin P now) ?st1 (map fst rest))) k =
        (case map_of (a # rest) k of
               None \<Rightarrow> map_of (watchlist st) k
             | Some i \<Rightarrow> map_of (watchlist (coin_step P now k i)) k)" for k
  proof (cases "k = c")
    case True
    with IH none F a show ?thesis by simp
  next
    case False
    with IH a show ?thesis by (simp add: process_coin_other split: option.split)
  qed
  show ?case
    using IH F lookup by (simp add: a process_coin_keys)
qed

text \<open>The second pass keeps the candidates whose symbol has no short-term alert.\<close>

lemma resolve_overlaps_filter:
  "\<forall>a \<in> set cands. type' a \<noteq> ShortTerm \<Longrightarrow>
   resolve_overlaps cands ns =
     ns @ filter (\<lambda>a. \<not> list_ex (\<lambda>n. coin_symbol n = coin_symbol a \<and> type' n = ShortTerm) ns) cands"
proof (induction cands arbitrary: ns)
  case Nil
  then show ?case by simp
next
  case (Cons a cands)
  then have a: "type' a \<noteq> ShortTerm" and rest: "\<forall>b \<in> set cands. type' b \<noteq> ShortTerm"
    by auto
  show ?case
    using Cons.IH [OF rest, of ns] Cons.IH [OF rest, of "ns @ [a]"] a
    by simp
qed

text \<open>The reset of the short-term baselines, entry by entry.\<close>

lemma update_prices_keys:
  "map fst (fst (update_prices now ns (wl, u))) = map fst wl"
  by (induction ns arbitrary: wl u) (auto simp: map_fst_map_entry)

lemma update_prices_flag:
  "snd (update_prices now ns (wl, u)) =
     (u \<or> list_ex (\<lambda>n. type' n = ShortTerm \<or> type' n = Absolute) ns)"
  by (induction ns arbitrary: wl u) auto

lemma update_prices_lookup_cong:
  "map_of wl1 k = map_of wl2 k \<Longrightarrow>
   map_of (fst (update_prices now ns (wl1, u1))) k = map_of (fst (update_prices now ns (wl2, u2))) k"
proof (induction ns arbitrary: wl1 wl2 u1 u2)
  case Nil
  then show ?case by simp
next
  case (Cons n ns)
  show ?case
  proof (cases "type' n = ShortTerm \<or> type' n = Absolute")
    case True
    let ?f = "\<lambda>i::datetime coin_info. i\<lparr>short_term := \<lparr>last_price = Some (current_price n),
                                   last_notification_time = now\<rparr>\<rparr>"
    have "map_of (AList.map_entry (coin_id n) ?f wl1) k = map_of (AList.map_entry (coin_id n) ?f wl2) k"
      using Cons.prems by (auto simp: map_of_map_entry)
    from Cons.IH [OF this] True show ?thesis by simp
  next
    case False
    with Cons.IH [OF Cons.prems] show ?thesis by simp
  qed
qed

lemma update_prices_lookup:
  assumes "map_of wl k = Some i"
    and "\<forall>n \<in> set ns. coin_id n = k \<and> (type' n = ShortTerm \<or> type' n = Absolute) \<longrightarrow> current_price n = p"
  shows "map_of (fst (update_prices now ns (wl, u))) k =
     Some (if list_ex (\<lambda>n. coin_id n = k \<and> (type' n = ShortTerm \<or> type' n = Absolute)) ns
           then i\<lparr>short_term := \<lparr>last_price = Some p, last_notification_time = now\<rparr>\<rparr>
           else i)"
  using assms
proof (induction ns arbitrary: wl u i)
  case Nil
  then show ?case by simp
next
  case (Cons n ns)
  from Cons.prems have rest: "\<forall>m \<in> set ns. coin_id m = k \<and> (type' m = ShortTerm \<or> type' m = Absolute) \<longrightarrow> current_price m = p"
    by simp
  show ?case
  proof (cases "type' n = ShortTerm \<or> type' n = Absolute")
    case False
    with Cons.IH [OF Cons.prems(1) rest] show ?thesis by auto
  next
    case True
    let ?f = "\<lambda>i::datetime coin_info. i\<lparr>short_term := \<lparr>last_price = Some (current_price n),
                                   last_notification_time = now\<rparr>\<rparr>"
    show ?thesis
    proof (cases "coin_id n = k")
      case hit: True
      with True Cons.prems have p: "current_price n = p" by simp
      have "map_of (AList.map_entry (coin_id n) ?f wl) k = Some (?f i)"
        using hit Cons.prems(1) by (simp add: map_of_map_entry)
      from Cons.IH [OF this rest] True hit p show ?thesis by simp
    next
      case miss: False
      have "map_of (AList.map_entry (coin_id n) ?f wl) k = Some i"
        using miss Cons.prems(1) by (simp add: map_of_map_entry)
      from Cons.IH [OF this rest] True miss show ?thesis by simp
    qed
  qed
qed

section \<open>The tick as a whole\<close>

lemma run_loop_summary:
  assumes "distinct (map fst wl)"
  shows "notifications (run_loop P now wl) =
           concat (map (\<lambda>(k, i). notifications (coin_step P now k i)) wl)"
    and "absolute_notifications (run_loop P now wl) =
           concat (map (\<lambda>(k, i). absolute_notifications (coin_step P now k i)) wl)"
    and "watchlist_updated (run_loop P now wl) =
           list_ex (\<lambda>(k, i). watchlist_updated (coin_step P now k i)) wl"
    and "map fst (watchlist (run_loop P now wl)) = map fst wl"
    and "map_of (watchlist (run_loop P now wl)) k =
           (case map_of wl k of
              None \<Rightarrow> None
            | Some i \<Rightarrow> map_of (watchlist (coin_step P now k i)) k)"
proof -
  let ?st = "\<lparr>watchlist = wl, notifications = [], absolute_notifications = [],
       watchlist_updated = False\<rparr>"
  have "\<forall>(k, i) \<in> set wl. map_of (watchlist ?st) k = Some i"
    using assms by auto
  note L = foldl_process_coin [OF assms this, of P now, folded run_loop_def]
  from L show "notifications (run_loop P now wl) =
           concat (map (\<lambda>(k, i). notifications (coin_step P now k i)) wl)" by simp
  from L show "absolute_notifications (run_loop P now wl) =
           concat (map (\<lambda>(k, i). absolute_notifications (coin_step P now k i)) wl)" by simp
  from L show "watchlist_updated (run_loop P now wl) =
           list_ex (\<lambda>(k, i). watchlist_updated (coin_step P now k i)) wl" by simp
  from L show "map fst (watchlist (run_loop P now wl)) = map fst wl" by simp
  from L have "map_of (watchlist (run_loop P now wl)) k =
            (case map_of wl k of
               None \<Rightarrow> map_of (watchlist ?st) k
             | Some i \<Rightarrow> map_of (watchlist (coin_step P now k i)) k)" by blast
  then show "map_of (watchlist (run_loop P now wl)) k =
           (case map_of wl k of
              None \<Rightarrow> None
            | Some i \<Rightarrow> map_of (watchlist (coin_step P now k i)) k)"
    by (simp split: option.splits)
qed

lemma evaluate_fst:
  "fst (evaluate P now wl) =
     resolve_overlaps (absolute_notifications (run_loop P now wl)) (notifications (run_loop P now wl))"
  by (simp add: evaluate_def Let_def split: prod.splits)

lemma evaluate_snd:
  "snd (evaluate P now wl) =
     update_prices now (fst (evaluate P now wl))
       (watchlist (run_loop P now wl), watchlist_updated (run_loop P now wl))"
  by (simp add: evaluate_def Let_def split: prod.splits)

lemma run_loop_absolute_type:
  assumes "distinct (map fst wl)" "a \<in> set (absolute_notifications (run_loop P now wl))"
  shows "type' a = Absolute"
  using assms by (auto simp: run_loop_summary dest: coin_step_absolute)

lemma evaluate_alerts:
  assumes "distinct (map fst wl)"
  shows "fst (evaluate P now wl) =
     notifications (run_loop P now wl) @
     filter (\<lambda>a. \<not> list_ex (\<lambda>n. coin_symbol n = coin_symbol a \<and> type' n = ShortTerm)
                     (notifications (run_loop P now wl)))
       (absolute_notifications (run_loop P now wl))"
proof -
  have "\<forall>a \<in> set (absolute_notifications (run_loop P now wl)). type' a \<noteq> ShortTerm"
    using run_loop_absolute_type [OF assms] by force
  then show ?thesis by (simp add: evaluate_fst resolve_overlaps_filter)
qed

lemma evaluate_alert_origin:
  assumes d: "distinct (map fst wl)" and n: "n \<in> set (fst (evaluate P now wl))"
  shows "\<exists>i. map_of wl (coin_id n) = Some i \<and>
           (n \<in> set (notifications (coin_step P now (coin_id n) i)) \<or>
            n \<in> set (absolute_notifications (coin_step P now (coin_id n) i)))"
proof -
  from n have "n \<in> set (notifications (run_loop P now wl)) \<or>
               n \<in> set (absolute_notifications (run_loop P now wl))"
    by (auto simp: evaluate_alerts [OF d])
  then obtain k i where ki: "(k, i) \<in> set wl"
    and src: "n \<in> set (notifications (coin_step P now k i)) \<or>
              n \<in> set (absolute_notifications (coin_step P now k i))"
    by (auto simp: run_loop_summary [OF d])
  from src have "coin_id n = k"
    using coin_step_notifications coin_step_absolute by blast
  moreover from d ki have "map_of wl k = Some i" by simp
  ultimately show ?thesis using src by auto
qed

lemma evaluate_entry:
  assumes d: "distinct (map fst wl)" and k: "map_of wl k = Some i"
  shows "\<exists>i'. map_of (watchlist (coin_step P now k i)) k = Some i' \<and>
           map_of (fst (snd (evaluate P now wl))) k =
             Some (if list_ex (\<lambda>n. coin_id n = k \<and> (type' n = ShortTerm \<or> type' n = Absolute))
                        (fst (evaluate P now wl))
                   then i'\<lparr>short_term := \<lparr>last_price = P k, last_notification_time = now\<rparr>\<rparr>
                   else i')"
proof -
  from coin_step_entry [of P now k i] obtain i'
    where i': "map_of (watchlist (coin_step P now k i)) k = Some i'" by blast
  then have loop: "map_of (watchlist (run_loop P now wl)) k = Some i'"
    by (simp add: run_loop_summary [OF d] k)
  let ?hit = "\<lambda>n. coin_id n = k \<and> (type' n = ShortTerm \<or> type' n = Absolute)"
  show ?thesis
  proof (cases "P k")
    case None
    have "\<not> list_ex ?hit (fst (evaluate P now wl))"
    proof
      assume "list_ex ?hit (fst (evaluate P now wl))"
      then obtain n where n: "n \<in> set (fst (evaluate P now wl))" and "coin_id n = k"
        by (auto simp: list_ex_iff)
      with evaluate_alert_origin [OF d n] have "P k = Some (current_price n)"
        using coin_step_notifications coin_step_absolute by blast
      with None show False by simp
    qed
    moreover have "\<forall>n \<in> set (fst (evaluate P now wl)). ?hit n \<longrightarrow> current_price n = 0"
      using calculation by (auto simp: list_ex_iff)
    ultimately show ?thesis
      using update_prices_lookup [OF loop, of "fst (evaluate P now wl)" 0 now] i'
      by (simp add: evaluate_snd)
  next
    case (Some p)
    have "\<forall>n \<in> set (fst (evaluate P now wl)). ?hit n \<longrightarrow> current_price n = p"
    proof clarify
      fix n assume n: "n \<in> set (fst (evaluate P now wl))" and "k = coin_id n"
      with evaluate_alert_origin [OF d n] have "P k = Some (current_price n)"
        using coin_step_notifications coin_step_absolute by blast
      with Some show "current_price n = p" by simp
    qed
    then show ?thesis
      using update_prices_lookup [OF loop, of "fst (evaluate P now wl)" p now] i' Some
      by (simp add: evaluate_snd)
  qed
qed

section \<open>The final long-term rule\<close>

text \<open>
  C3.  The claim: when the long-term change is at least 15 percent and none of the four
  earlier long-term rules matches, the rule (15.0, infinity) matches whatever the elapsed
  time, a long-term alert is emitted and the long-term baseline is reset.  The code does
  not do this.  Coin 7 has long-term baseline 100 set 2000 minutes before the tick,
  short-term baseline 120, and the price is 120: the long-term change is 20 percent, the
  windows of the four earlier rules (at most 1440 minutes) have passed, and the scan
  reaches the last rule, whose magnitude test passes.  Building
  \<^verbatim>\<open>timedelta(minutes=float('inf'))\<close> then raises \<^verbatim>\<open>OverflowError\<close>, the handler of the loop
  body swallows it, and the tick ends with no alert and the baseline untouched.
\<close>

theorem long_term_final_rule_raises:
  "threshold_scan 20 (2000 * 60000000) LONG_TERM_THRESHOLDS = Inl OverflowError \<and>
   evaluate [7 \<mapsto> 120] (now + 2000 * 60000000)
     [(7, \<lparr>name = ''Bitcoin'', symbol = ''BTC'',
            short_term = \<lparr>last_price = Some 120, last_notification_time = now\<rparr>,
            long_term = \<lparr>last_price = Some 100, last_notification_time = now\<rparr>\<rparr>)] =
   ([],
    [(7, \<lparr>name = ''Bitcoin'', symbol = ''BTC'',
            short_term = \<lparr>last_price = Some 120, last_notification_time = now\<rparr>,
            long_term = \<lparr>last_price = Some 100, last_notification_time = now\<rparr>\<rparr>)],
    False)"
  by (simp add: tick_defs)

section \<open>Scenario A\<close>

text \<open>
  C4, as the claim states it: in Scenario A (both baselines 100, set one minute before
  the tick, price 102) the short-term rule that matches is (2.0, 30 minutes).  It is
  not: the change is 2 percent and one minute has passed, so the scan stops at the first
  rule of the table, (0.2, 2 minutes).
\<close>

theorem scenario_A_first_rule_counterexample:
  "change_percent 102 100 = Inr 2 \<and>
   threshold_scan 2 60000000 SHORT_TERM_THRESHOLDS =
     Inr (Some \<lparr>percent = 0.2, minutes = Minutes 2\<rparr>) \<and>
   threshold_scan 2 60000000 SHORT_TERM_THRESHOLDS \<noteq>
     Inr (Some \<lparr>percent = 2.0, minutes = Minutes 30\<rparr>)"
  by (simp add: tick_defs)

text \<open>
  C4, amended: in Scenario A the rule at which the short-term scan stops is
  (0.2, 2 minutes), the first of the table; a short-term alert is the only alert of the
  tick, the absolute candidate (2.0 reaches 2.0) being held back by the overlap
  resolution; the short-term baseline becomes 102 at the time of the tick, and the
  long-term baseline stays.
\<close>

theorem scenario_A:
  "threshold_scan 2 60000000 SHORT_TERM_THRESHOLDS =
     Inr (Some \<lparr>percent = 0.2, minutes = Minutes 2\<rparr>) \<and>
   absolute_notifications (coin_step [1 \<mapsto> 102] now 1
      \<lparr>name = nm, symbol = sy,
       short_term = \<lparr>last_price = Some 100, last_notification_time = now - 60000000\<rparr>,
       long_term = \<lparr>last_price = Some 100, last_notification_time = now - 60000000\<rparr>\<rparr>) =
     [\<lparr>coin_name = nm, coin_symbol = sy, current_price = 102, price_change = 2,
       time_elapsed = None, type' = Absolute, coin_id = 1\<rparr>] \<and>
   evaluate [1 \<mapsto> 102] now
     [(1, \<lparr>name = nm, symbol = sy,
            short_term = \<lparr>last_price = Some 100, last_notification_time = now - 60000000\<rparr>,
            long_term = \<lparr>last_price = Some 100, last_notification_time = now - 60000000\<rparr>\<rparr>)] =
   ([\<lparr>coin_name = nm, coin_symbol = sy, current_price = 102, price_change = 2,
      time_elapsed = Some 60000000, type' = ShortTerm, coin_id = 1\<rparr>],
    [(1, \<lparr>name = nm, symbol = sy,
            short_term = \<lparr>last_price = Some 102, last_notification_time = now\<rparr>,
            long_term = \<lparr>last_price = Some 100, last_notification_time = now - 60000000\<rparr>\<rparr>)],
    True)"
  by (simp add: tick_defs coin_step_def)

section \<open>Adding a coin that is already watched\<close>

text \<open>
  C9.  When \<^verbatim>\<open>str(coin_id)\<close> is a key of the stored watchlist document, \<^verbatim>\<open>add_coin\<close>
  returns \<^verbatim>\<open>True\<close> and the files and the tokens map are as before, whatever the coin
  information service would have answered: it is not asked.
\<close>

theorem add_coin_already_watched:
  "watchlist_json w = Document d \<Longrightarrow> py_str cid \<in> set (map fst d) \<Longrightarrow>
   add_coin env cid w = (True, w)"
  by (simp add: add_coin_def)

theorem add_coin_already_watched_witness:
  "add_coin
     \<lparr>int_of_str = (\<lambda>s. None), fromisoformat = (\<lambda>s. None), isoformat = (\<lambda>t. []),
      datetime_now = 0, get_coin_price = (\<lambda>ids. Map.empty),
      cryptocurrency_info = (\<lambda>c. CoinData \<lparr>name = ''Bitcoin'', symbol = ''BTC''\<rparr>)\<rparr>
     1
     \<lparr>watchlist_json = Document [(''1'', Malformed)], tokens_json = Missing, tokens = []\<rparr> =
   (True, \<lparr>watchlist_json = Document [(''1'', Malformed)], tokens_json = Missing, tokens = []\<rparr>)"
  using add_coin_already_watched
    [of "\<lparr>watchlist_json = Document [(''1'', Malformed)], tokens_json = Missing, tokens = []\<rparr>"
        "[(''1'', Malformed)]" 1]
  by (simp add: py_str_1)

section \<open>A watchlist file that cannot be loaded\<close>

text \<open>
  C10.  When \<^verbatim>\<open>watchlist.json\<close> is missing, empty or not JSON, \<^verbatim>\<open>load_watchlist\<close> returns
  the empty watchlist, and \<^verbatim>\<open>check_price_movements\<close> returns no notification and writes
  nothing: the file, corrupt or not, is as it was.
\<close>

theorem unloadable_watchlist_untouched:
  "watchlist_json w = Missing \<or> watchlist_json w = Empty \<or> watchlist_json w = NotJson \<Longrightarrow>
   load_watchlist env (watchlist_json w) = [] \<and> check_price_movements env w = ([], w)"
  by (auto simp: load_watchlist_def check_price_movements_def)

theorem unloadable_watchlist_untouched_witness:
  "load_watchlist
     \<lparr>int_of_str = (\<lambda>s. None), fromisoformat = (\<lambda>s. None), isoformat = (\<lambda>t. []),
      datetime_now = 0, get_coin_price = (\<lambda>ids. Map.empty),
      cryptocurrency_info = (\<lambda>c. RequestFailed)\<rparr>
     (watchlist_json \<lparr>watchlist_json = NotJson, tokens_json = Missing, tokens = []\<rparr>) = [] \<and>
   check_price_movements
     \<lparr>int_of_str = (\<lambda>s. None), fromisoformat = (\<lambda>s. None), isoformat = (\<lambda>t. []),
      datetime_now = 0, get_coin_price = (\<lambda>ids. Map.empty),
      cryptocurrency_info = (\<lambda>c. RequestFailed)\<rparr>
     \<lparr>watchlist_json = NotJson, tokens_json = Missing, tokens = []\<rparr> =
     ([], \<lparr>watchlist_json = NotJson, tokens_json = Missing, tokens = []\<rparr>)"
  using unloadable_watchlist_untouched
    [of "\<lparr>watchlist_json = NotJson, tokens_json = Missing, tokens = []\<rparr>"
        "\<lparr>int_of_str = (\<lambda>s. None), fromisoformat = (\<lambda>s. None), isoformat = (\<lambda>t. []),
          datetime_now = 0, get_coin_price = (\<lambda>ids. Map.empty),
          cryptocurrency_info = (\<lambda>c. RequestFailed)\<rparr>"]
  by simp

end
